theory Spec2Isabelle
  imports Complex_Main "HOL-Library.Sublist"
begin

section \<open>Python strings\<close>

text \<open>
  A Python \<open>str\<close> is modelled as a \<open>string\<close> whose characters are the code points
  below 256. \<open>len\<close> is \<open>length\<close>. The methods of \<open>str\<close> that the analyzer calls are
  written out below: \<open>strip()\<close> for every such code point, \<open>title()\<close> and its case
  mappings for the ASCII letters (the metadata keys of this program are ASCII).
\<close>

definition isspace :: "char \<Rightarrow> bool" where
  "isspace c =
     (let n = (of_char c :: nat)
      in (9 \<le> n \<and> n \<le> 13) \<or> (28 \<le> n \<and> n \<le> 32) \<or> n = 133 \<or> n = 160)"

definition py_strip :: "string \<Rightarrow> string" where
  "py_strip s = rev (dropWhile isspace (rev (dropWhile isspace s)))"

definition py_replace :: "char \<Rightarrow> char \<Rightarrow> string \<Rightarrow> string" where
  "py_replace old new s = map (\<lambda>c. if c = old then new else c) s"

definition islower :: "char \<Rightarrow> bool" where
  "islower c = (let n = (of_char c :: nat) in 97 \<le> n \<and> n \<le> 122)"

definition isupper :: "char \<Rightarrow> bool" where
  "isupper c = (let n = (of_char c :: nat) in 65 \<le> n \<and> n \<le> 90)"

definition iscased :: "char \<Rightarrow> bool" where
  "iscased c = (islower c \<or> isupper c)"

definition to_lower :: "char \<Rightarrow> char" where
  "to_lower c = (if isupper c then char_of ((of_char c :: nat) + 32) else c)"

definition to_title :: "char \<Rightarrow> char" where
  "to_title c = (if islower c then char_of ((of_char c :: nat) - 32) else c)"

text \<open>
  \<open>str.title()\<close>: a character that follows a cased character is lowercased, any other
  character is titlecased.
\<close>

fun title_from :: "bool \<Rightarrow> string \<Rightarrow> string" where
  "title_from previous_is_cased [] = []"
| "title_from previous_is_cased (c # cs) =
     (if previous_is_cased then to_lower c else to_title c) # title_from (iscased c) cs"

definition py_title :: "string \<Rightarrow> string" where
  "py_title s = title_from False s"

text \<open>\<open>str(n)\<close> for an \<open>int\<close>: the decimal digits, with a minus sign below zero.\<close>

function str_of_nat :: "nat \<Rightarrow> string" where
  "str_of_nat n =
     (if n < 10 then [char_of (48 + n)]
      else str_of_nat (n div 10) @ [char_of (48 + n mod 10)])"
  by pat_completeness auto
termination
  by (relation "measure id") auto

definition str_of_int :: "int \<Rightarrow> string" where
  "str_of_int i = (if i < 0 then CHR ''-'' # str_of_nat (nat (- i)) else str_of_nat (nat i))"

section \<open>Python values and exceptions\<close>

text \<open>
  The values that \<open>json.loads\<close> produces, which are also the values a caller can pass
  for \<open>symptoms\<close>. A \<open>dict\<close> is an association list read with \<open>map_of\<close>.
\<close>

datatype pyval =
    PNone
  | PBool bool
  | PInt int
  | PFloat real
  | PStr string
  | PList "pyval list"
  | PDict "(string \<times> pyval) list"

fun truthy :: "pyval \<Rightarrow> bool" where
  "truthy PNone = False"
| "truthy (PBool b) = b"
| "truthy (PInt i) = (i \<noteq> 0)"
| "truthy (PFloat x) = (x \<noteq> 0)"
| "truthy (PStr s) = (s \<noteq> [])"
| "truthy (PList xs) = (xs \<noteq> [])"
| "truthy (PDict kvs) = (kvs \<noteq> [])"

fun isinstance_str :: "pyval \<Rightarrow> bool" where
  "isinstance_str (PStr s) = True"
| "isinstance_str v = False"

fun type_name :: "pyval \<Rightarrow> string" where
  "type_name PNone = ''NoneType''"
| "type_name (PBool b) = ''bool''"
| "type_name (PInt i) = ''int''"
| "type_name (PFloat x) = ''float''"
| "type_name (PStr s) = ''str''"
| "type_name (PList xs) = ''list''"
| "type_name (PDict kvs) = ''dict''"

text \<open>
  \<open>d.get(key, fallback)\<close>: the value stored under the key, the fallback when the key
  is absent.
\<close>

definition dict_get :: "(string \<times> pyval) list \<Rightarrow> string \<Rightarrow> pyval \<Rightarrow> pyval" where
  "dict_get d key fallback = (case map_of d key of None \<Rightarrow> fallback | Some v \<Rightarrow> v)"

text \<open>
  The message of the \<open>AttributeError\<close> raised by \<open>v.get\<close> on a value that is not a
  \<open>dict\<close>.
\<close>

definition no_attribute_get :: "pyval \<Rightarrow> string" where
  "no_attribute_get v =
     [CHR 0x27] @ type_name v @ [CHR 0x27] @ '' object has no attribute '' @
     [CHR 0x27] @ ''get'' @ [CHR 0x27]"

text \<open>
  An exception is its class and its message (\<open>str(e)\<close>). \<open>APIError\<close> stands for the
  errors of the completion client. Every class here derives from \<open>Exception\<close>, and
  \<open>json.JSONDecodeError\<close> derives from \<open>ValueError\<close>.
\<close>

datatype exc_class =
    ValueError
  | JSONDecodeError
  | TypeError
  | AttributeError
  | IndexError
  | APIError
  | Exception

datatype exn = Exn (exc_cls: exc_class) (exc_msg: string)

fun issubclass :: "exc_class \<Rightarrow> exc_class \<Rightarrow> bool" where
  "issubclass c Exception = True"
| "issubclass JSONDecodeError ValueError = True"
| "issubclass c d = (c = d)"

text \<open>
  \<open>json.loads\<close> is a parameter of the model: a decoder gives the decoded value, or
  the message of the \<open>JSONDecodeError\<close> it raises.
\<close>

type_synonym json_decoder = "string \<Rightarrow> string + pyval"

section \<open>The data model\<close>

record analysis_result =
  condition :: pyval
  severity :: pyval
  confidence :: pyval
  analysis :: pyval
  remedies :: pyval
  when_to_see_doctor :: pyval
  precautions :: pyval
  disclaimer :: pyval

text \<open>\<open>AnalysisResult.to_dict\<close>: \<open>asdict\<close> lists the fields in declaration order.\<close>

definition to_dict :: "analysis_result \<Rightarrow> pyval" where
  "to_dict r = PDict
     [(''condition'', condition r),
      (''severity'', severity r),
      (''confidence'', confidence r),
      (''analysis'', analysis r),
      (''remedies'', remedies r),
      (''when_to_see_doctor'', when_to_see_doctor r),
      (''precautions'', precautions r),
      (''disclaimer'', disclaimer r)]"

text \<open>The values of the optional metadata: an \<open>int\<close> (age) or a \<open>str\<close>.\<close>

datatype info_value = IntVal int | StrVal string

fun format_value :: "info_value \<Rightarrow> string" where
  "format_value (IntVal i) = str_of_int i"
| "format_value (StrVal s) = s"

type_synonym additional_info = "(string \<times> info_value) list"

section \<open>The completion client\<close>

record message =
  role :: string
  content :: string

record request =
  model :: string
  messages :: "message list"
  temperature :: real
  max_tokens :: nat
  stream :: bool
  response_format :: string

text \<open>
  The keyword arguments of \<open>client.chat.completions.create\<close>: \<open>stream\<close> is \<open>False\<close>
  where the call does not pass it, \<open>response_format\<close> is the \<open>type\<close> asked for.
\<close>

text \<open>
  A completion is the list of its choices, each the \<open>message.content\<close> of the choice
  (\<open>None\<close> when the provider sends no text). A stream is the list of what iterating it
  produces: a chunk (the \<open>delta.content\<close> of each of its choices), or the exception
  with which the transport breaks.
\<close>

datatype stream_item = Chunk "string option list" | Broken exn

text \<open>
  The client answers a request with a completion or raises; asked with \<open>stream=True\<close> it
  answers with a stream.
\<close>

record llm_client =
  create :: "request \<Rightarrow> exn + string option list"
  create_stream :: "request \<Rightarrow> exn + stream_item list"

record symptom_analyzer =
  api_key :: string
  client :: llm_client
  model :: string
  system_prompt :: string

text \<open>The text that \<open>__init__\<close> stores in \<open>self.system_prompt\<close>.\<close>

definition servvia_system_prompt :: string where
  \<open>servvia_system_prompt =
     ''You are Servvia's medical AI assistant, specialized in analyzing symptoms and providing helpful remedies. \<newline>'' @
     ''\<newline>'' @
     ''Your role is to:\<newline>'' @
     ''1. Analyze the user's symptoms intelligently\<newline>'' @
     ''2. Identify the most likely condition(s)\<newline>'' @
     ''3. Provide practical, safe home remedies\<newline>'' @
     ''4. Give clear guidance on when professional medical help is needed\<newline>'' @
     ''5. Always prioritize patient safety\<newline>'' @
     ''\<newline>'' @
     ''IMPORTANT GUIDELINES:\<newline>'' @
     ''- Never diagnose definitively - use terms like "may indicate", "could be", "commonly associated with"\<newline>'' @
     ''- Always include when to seek professional medical help\<newline>'' @
     ''- Focus on evidence-based remedies and self-care\<newline>'' @
     ''- Flag emergency symptoms immediately\<newline>'' @
     ''- Be empathetic and reassuring while being informative\<newline>'' @
     ''\<newline>'' @
     ''OUTPUT FORMAT (respond ONLY with valid JSON):\<newline>'' @
     ''{\<newline>'' @
     ''  "condition": "Most likely condition name",\<newline>'' @
     ''  "severity": "mild/moderate/severe/emergency",\<newline>'' @
     ''  "confidence": "low/medium/high",\<newline>'' @
     ''  "analysis": "Brief analysis of the symptoms and what they may indicate",\<newline>'' @
     ''  "remedies": ["List of practical remedies and self-care steps"],\<newline>'' @
     ''  "when_to_see_doctor": ["Specific signs that indicate need for professional care"],\<newline>'' @
     ''  "precautions": ["Important precautions and things to avoid"],\<newline>'' @
     ''  "disclaimer": "Standard medical disclaimer"\<newline>'' @
     ''}''\<close>

section \<open>ServviaSymptomAnalyzer\<close>

text \<open>
  \<open>_build_prompt\<close>. The loop over \<open>additional_info.items()\<close> appends one line per
  entry to the prompt built so far.
\<close>

fun append_items :: "string \<Rightarrow> additional_info \<Rightarrow> string" where
  "append_items prompt [] = prompt"
| "append_items prompt ((key, v) # items) =
     append_items
       (prompt @ ''\<newline>- '' @ py_title (py_replace (CHR ''_'') (CHR '' '') key)
          @ '': '' @ format_value v)
       items"

definition build_prompt :: "string \<Rightarrow> additional_info option \<Rightarrow> string" where
  "build_prompt symptoms additional_info =
     (let prompt = ''Please analyze these symptoms:\<newline>\<newline>'' @ symptoms;
          prompt' =
            (case additional_info of
               None \<Rightarrow> prompt
             | Some info \<Rightarrow>
                 if info \<noteq> []
                 then append_items (prompt @ ''\<newline>\<newline>Additional Information:'') info
                 else prompt)
      in prompt' @ ''\<newline>\<newline>Provide your analysis in the specified JSON format.'')"

text \<open>
  The two \<open>except\<close> clauses of \<open>analyze_symptoms\<close>, in their order: what is raised in
  place of an exception of the \<open>try\<close> block.
\<close>

definition analyze_except :: "exn \<Rightarrow> exn" where
  "analyze_except e =
     (if issubclass (exc_cls e) JSONDecodeError
      then Exn Exception ''AI returned invalid response format''
      else Exn Exception (''Failed to analyze symptoms: '' @ exc_msg e))"

text \<open>
  \<open>analyze_symptoms\<close> returns the completion requests it has issued, and the result or
  the exception it raises. \<open>symptoms\<close> is any Python value: the function tests its type
  itself, so that the last case of the model, for a value that is not a \<open>str\<close>, is never
  reached. The exceptions of the \<open>try\<close> block are the one of the client, the
  \<open>IndexError\<close> of \<open>choices[0]\<close>, the \<open>TypeError\<close> of \<open>json.loads\<close> on \<open>None\<close>, the
  \<open>JSONDecodeError\<close> of the decoder and the \<open>AttributeError\<close> of \<open>get\<close> on a decoded value
  that is not a \<open>dict\<close>.
\<close>

definition analyze_symptoms ::
  "json_decoder \<Rightarrow> symptom_analyzer \<Rightarrow> pyval \<Rightarrow> additional_info option
     \<Rightarrow> request list \<times> (exn + analysis_result)" where
  "analyze_symptoms json_loads self symptoms additional_info =
     (if \<not> truthy symptoms \<or> \<not> isinstance_str symptoms
      then ([], Inl (Exn ValueError ''Symptoms must be a non-empty string''))
      else
        (case symptoms of
           PStr s \<Rightarrow>
             if length (py_strip s) < 5
             then ([], Inl (Exn ValueError ''Please provide more detailed symptom description''))
             else
               (let user_message = build_prompt s additional_info;
                    req = \<lparr>request.model = symptom_analyzer.model self,
                           messages =
                             [\<lparr>role = ''system'', content = system_prompt self\<rparr>,
                              \<lparr>role = ''user'', content = user_message\<rparr>],
                           temperature = 7 / 10,
                           max_tokens = 2000,
                           stream = False,
                           response_format = ''json_object''\<rparr>
                in ([req],
                    (case create (client self) req of
                       Inl e \<Rightarrow> Inl (analyze_except e)
                     | Inr choices \<Rightarrow>
                         (case choices of
                            [] \<Rightarrow> Inl (analyze_except (Exn IndexError ''list index out of range''))
                          | None # _ \<Rightarrow>
                              Inl (analyze_except (Exn TypeError
                                ''the JSON object must be str, bytes or bytearray, not NoneType''))
                          | Some response_text # _ \<Rightarrow>
                              (case json_loads response_text of
                                 Inl err \<Rightarrow> Inl (analyze_except (Exn JSONDecodeError err))
                               | Inr (PDict result_data) \<Rightarrow>
                                   Inr \<lparr>condition = dict_get result_data ''condition'' (PStr ''Unknown''),
                                        severity = dict_get result_data ''severity'' (PStr ''moderate''),
                                        confidence = dict_get result_data ''confidence'' (PStr ''medium''),
                                        analysis = dict_get result_data ''analysis'' (PStr []),
                                        remedies = dict_get result_data ''remedies'' (PList []),
                                        when_to_see_doctor =
                                          dict_get result_data ''when_to_see_doctor'' (PList []),
                                        precautions = dict_get result_data ''precautions'' (PList []),
                                        disclaimer =
                                          dict_get result_data ''disclaimer''
                                            (PStr ''This is not a medical diagnosis. Consult a healthcare professional.'')\<rparr>
                               | Inr v \<Rightarrow>
                                   Inl (analyze_except (Exn AttributeError (no_attribute_get v))))))))
         | _ \<Rightarrow> ([], Inl (Exn ValueError ''Symptoms must be a non-empty string''))))"

text \<open>
  The loop of \<open>analyze_with_streaming\<close> over the stream: the fragments it yields, and
  the collected content when the stream ends, or the exception raised meanwhile.
\<close>

fun consume :: "stream_item list \<Rightarrow> string \<Rightarrow> string list \<times> (exn + string)" where
  "consume [] collected_content = ([], Inr collected_content)"
| "consume (Broken e # rest) collected_content = ([], Inl e)"
| "consume (Chunk [] # rest) collected_content =
     ([], Inl (Exn IndexError ''list index out of range''))"
| "consume (Chunk (None # _) # rest) collected_content = consume rest collected_content"
| "consume (Chunk (Some c # _) # rest) collected_content =
     (if c \<noteq> []
      then (case consume rest (collected_content @ c) of (yielded, r) \<Rightarrow> (c # yielded, r))
      else consume rest collected_content)"

text \<open>The only \<open>except\<close> clause of \<open>analyze_with_streaming\<close>.\<close>

definition streaming_except :: "exn \<Rightarrow> exn" where
  "streaming_except e = Exn Exception (''Failed to analyze symptoms: '' @ exc_msg e)"

text \<open>
  \<open>analyze_with_streaming\<close>, run until the generator is exhausted: the requests issued,
  the fragments yielded in order, and the value returned or the exception raised at the
  end. \<open>symptoms\<close> has its declared type: this function never tests it.
\<close>

definition analyze_with_streaming ::
  "json_decoder \<Rightarrow> symptom_analyzer \<Rightarrow> string \<Rightarrow> additional_info option
     \<Rightarrow> request list \<times> string list \<times> (exn + analysis_result)" where
  "analyze_with_streaming json_loads self symptoms additional_info =
     (let user_message = build_prompt symptoms additional_info;
          req = \<lparr>request.model = symptom_analyzer.model self,
                 messages =
                   [\<lparr>role = ''system'', content = system_prompt self\<rparr>,
                    \<lparr>role = ''user'', content = user_message\<rparr>],
                 temperature = 7 / 10,
                 max_tokens = 2000,
                 stream = True,
                 response_format = ''json_object''\<rparr>
      in (case create_stream (client self) req of
            Inl e \<Rightarrow> ([req], [], Inl (streaming_except e))
          | Inr items \<Rightarrow>
              (case consume items [] of
                 (yielded, Inl e) \<Rightarrow> ([req], yielded, Inl (streaming_except e))
               | (yielded, Inr collected_content) \<Rightarrow>
                   ([req], yielded,
                    (case json_loads collected_content of
                       Inl err \<Rightarrow> Inl (streaming_except (Exn JSONDecodeError err))
                     | Inr (PDict result_data) \<Rightarrow>
                         Inr \<lparr>condition = dict_get result_data ''condition'' (PStr ''Unknown''),
                              severity = dict_get result_data ''severity'' (PStr ''moderate''),
                              confidence = dict_get result_data ''confidence'' (PStr ''medium''),
                              analysis = dict_get result_data ''analysis'' (PStr []),
                              remedies = dict_get result_data ''remedies'' (PList []),
                              when_to_see_doctor =
                                dict_get result_data ''when_to_see_doctor'' (PList []),
                              precautions = dict_get result_data ''precautions'' (PList []),
                              disclaimer =
                                dict_get result_data ''disclaimer''
                                  (PStr ''This is not a medical diagnosis. Consult a healthcare professional.'')\<rparr>
                     | Inr v \<Rightarrow>
                         Inl (streaming_except (Exn AttributeError (no_attribute_get v))))))))"

text \<open>
  For stating what a stream delivers: the text fragment an item carries (the
  \<open>delta.content\<close> of its first choice, nothing when that is \<open>None\<close>), and whether an
  item is a chunk that has a first choice at all.
\<close>

fun fragment :: "stream_item \<Rightarrow> string" where
  "fragment (Chunk (Some c # _)) = c"
| "fragment _ = []"

fun delivered :: "stream_item \<Rightarrow> bool" where
  "delivered (Chunk (_ # _)) = True"
| "delivered _ = False"

section \<open>ServviaAPI\<close>

record servvia_api =
  analyzer :: symptom_analyzer

text \<open>
  The dictionary \<open>ServviaAPI.analyze\<close> builds from its optional arguments; an argument
  is entered when it is truthy.
\<close>

definition build_additional_info ::
  "int option \<Rightarrow> string option \<Rightarrow> string option \<Rightarrow> string option \<Rightarrow> string option
     \<Rightarrow> additional_info" where
  "build_additional_info age gender duration severity_level medical_history =
     (case age of Some a \<Rightarrow> if a \<noteq> 0 then [(''age'', IntVal a)] else [] | None \<Rightarrow> [])
     @ (case gender of Some g \<Rightarrow> if g \<noteq> [] then [(''gender'', StrVal g)] else [] | None \<Rightarrow> [])
     @ (case duration of
          Some d \<Rightarrow> if d \<noteq> [] then [(''duration'', StrVal d)] else [] | None \<Rightarrow> [])
     @ (case severity_level of
          Some l \<Rightarrow> if l \<noteq> [] then [(''severity_level'', StrVal l)] else [] | None \<Rightarrow> [])
     @ (case medical_history of
          Some h \<Rightarrow> if h \<noteq> [] then [(''medical_history'', StrVal h)] else [] | None \<Rightarrow> [])"

text \<open>
  \<open>ServviaAPI.analyze\<close>: the requests issued, and the dictionary returned, or the
  exception that neither \<open>except\<close> clause catches.
\<close>

definition api_analyze ::
  "json_decoder \<Rightarrow> servvia_api \<Rightarrow> pyval \<Rightarrow> int option \<Rightarrow> string option \<Rightarrow> string option
     \<Rightarrow> string option \<Rightarrow> string option \<Rightarrow> request list \<times> (exn + pyval)" where
  "api_analyze json_loads self symptoms age gender duration severity_level medical_history =
     (let additional_info =
            build_additional_info age gender duration severity_level medical_history
      in (case analyze_symptoms json_loads (analyzer self) symptoms
                 (if additional_info \<noteq> [] then Some additional_info else None) of
            (reqs, Inr result) \<Rightarrow>
              (reqs, Inr (PDict [(''status'', PStr ''success''), (''data'', to_dict result)]))
          | (reqs, Inl e) \<Rightarrow>
              if issubclass (exc_cls e) ValueError
              then (reqs, Inr (PDict [(''status'', PStr ''error''),
                                      (''error'', PStr (exc_msg e)),
                                      (''code'', PStr ''INVALID_INPUT'')]))
              else if issubclass (exc_cls e) Exception
              then (reqs, Inr (PDict [(''status'', PStr ''error''),
                                      (''error'', PStr ''Failed to analyze symptoms. Please try again.''),
                                      (''code'', PStr ''ANALYSIS_FAILED'')]))
              else (reqs, Inl e)))"

section \<open>Example values\<close>

text \<open>
  Response texts for the examples, and what \<open>json.loads\<close> gives for them: a complete
  answer with one key outside the schema, an answer with five keys missing, an answer
  whose severity and confidence are outside the vocabulary, and an answer cut off in
  the middle of a string. \<open>example_loads\<close> is the decoder on these texts; a text it does
  not list is reported as undecodable.
\<close>

definition complete_text :: string where
  \<open>complete_text =
     ''{"condition": "Migraine", "severity": "mild", "confidence": "high", '' @
     ''"analysis": "May indicate migraine.", "remedies": ["Rest"], '' @
     ''"when_to_see_doctor": ["Vision loss"], "precautions": ["Avoid glare"], '' @
     ''"disclaimer": "See a doctor.", "source": "model"}''\<close>

definition complete_dict :: "(string \<times> pyval) list" where
  "complete_dict =
     [(''condition'', PStr ''Migraine''),
      (''severity'', PStr ''mild''),
      (''confidence'', PStr ''high''),
      (''analysis'', PStr ''May indicate migraine.''),
      (''remedies'', PList [PStr ''Rest'']),
      (''when_to_see_doctor'', PList [PStr ''Vision loss'']),
      (''precautions'', PList [PStr ''Avoid glare'']),
      (''disclaimer'', PStr ''See a doctor.''),
      (''source'', PStr ''model'')]"

definition partial_text :: string where
  \<open>partial_text = ''{"condition": "Migraine", "remedies": ["Rest"]}''\<close>

definition partial_dict :: "(string \<times> pyval) list" where
  "partial_dict = [(''condition'', PStr ''Migraine''), (''remedies'', PList [PStr ''Rest''])]"

definition offlist_text :: string where
  \<open>offlist_text = ''{"severity": "critical", "confidence": "certain"}''\<close>

definition offlist_dict :: "(string \<times> pyval) list" where
  "offlist_dict = [(''severity'', PStr ''critical''), (''confidence'', PStr ''certain'')]"

definition truncated_text :: string where
  \<open>truncated_text = ''{"condition": "Migra''\<close>

definition example_loads :: json_decoder where
  "example_loads text =
     (if text = complete_text then Inr (PDict complete_dict)
      else if text = partial_text then Inr (PDict partial_dict)
      else if text = offlist_text then Inr (PDict offlist_dict)
      else if text = truncated_text
      then Inl ''Unterminated string starting at: line 1 column 15 (char 14)''
      else Inl ''Expecting value: line 1 column 1 (char 0)'')"

text \<open>
  A client that answers every request with one choice holding the given text, and
  every streaming request with the given items; and an analyzer as \<open>__init__\<close> sets it
  up around such a client, with the default model.
\<close>

definition replying_client :: "string \<Rightarrow> stream_item list \<Rightarrow> llm_client" where
  "replying_client text items =
     \<lparr>create = (\<lambda>req. Inr [Some text]), create_stream = (\<lambda>req. Inr items)\<rparr>"

definition example_analyzer :: "string \<Rightarrow> stream_item list \<Rightarrow> symptom_analyzer" where
  "example_analyzer text items =
     \<lparr>api_key = ''sk-example'',
      client = replying_client text items,
      model = ''gpt-4o'',
      system_prompt = servvia_system_prompt\<rparr>"


definition partial_items :: "stream_item list" where
  \<open>partial_items =
     [Chunk [Some []], Chunk [Some ''{"condition": "Migraine", ''],
      Chunk [Some ''"remedies": ["Rest"]}''], Chunk [None]]\<close>

definition headache :: string where
  "headache = ''persistent headache for 2 days, nauseous, sensitive to light''"

definition headache_info :: additional_info where
  "headache_info =
     [(''age'', IntVal 30), (''gender'', StrVal ''female''), (''duration'', StrVal ''2 days'')]"

section \<open>Input validation\<close>

text \<open>
  C1: \<open>analyze_symptoms\<close> on a \<open>symptoms\<close> argument that is not a non-empty string, or
  that is a string with fewer than 5 characters left after \<open>strip()\<close>, raises
  \<open>ValueError\<close> and has issued no completion request. The message is the one of the
  check that fails: the first for a value that is falsy or not a \<open>str\<close>, the second
  for a string that is too short.
\<close>

theorem analyze_rejects_short_symptoms:
  assumes "\<not> (\<exists>s. symptoms = PStr s \<and> s \<noteq> [])
           \<or> (\<exists>s. symptoms = PStr s \<and> length (py_strip s) < 5)"
  shows "analyze_symptoms json_loads self symptoms additional_info =
           ([], Inl (Exn ValueError
                  (if truthy symptoms \<and> isinstance_str symptoms
                   then ''Please provide more detailed symptom description''
                   else ''Symptoms must be a non-empty string'')))"
  using assms by (cases symptoms) (auto simp: analyze_symptoms_def)

text \<open>
  The theorem at a padded three-letter text, at the empty string and at a number, with
  the example analyzer.
\<close>

theorem analyze_rejects_short_symptoms_witness:
  "length (py_strip '' \<newline> flu  '') < 5
   \<and> analyze_symptoms example_loads (example_analyzer complete_text [])
         (PStr '' \<newline> flu  '') None =
       ([], Inl (Exn ValueError ''Please provide more detailed symptom description''))
   \<and> analyze_symptoms example_loads (example_analyzer complete_text []) (PStr []) None =
       ([], Inl (Exn ValueError ''Symptoms must be a non-empty string''))
   \<and> analyze_symptoms example_loads (example_analyzer complete_text []) (PInt 12345) None =
       ([], Inl (Exn ValueError ''Symptoms must be a non-empty string''))"
proof -
  have short: "length (py_strip '' \<newline> flu  '') < 5"
    by code_simp
  show ?thesis
    using short
      analyze_rejects_short_symptoms
        [of "PStr '' \<newline> flu  ''" example_loads "example_analyzer complete_text []" None]
      analyze_rejects_short_symptoms
        [of "PStr []" example_loads "example_analyzer complete_text []" None]
      analyze_rejects_short_symptoms
        [of "PInt 12345" example_loads "example_analyzer complete_text []" None]
    by simp
qed

section \<open>The prompt\<close>

text \<open>
  The prompt for the headache example with its three metadata entries, as
  \<open>_build_prompt\<close> composes it: the values are entered as they are given.
\<close>

lemma headache_prompt:
  "build_prompt headache (Some headache_info) =
     ''Please analyze these symptoms:\<newline>\<newline>'' @
     ''persistent headache for 2 days, nauseous, sensitive to light\<newline>\<newline>'' @
     ''Additional Information:\<newline>'' @
     ''- Age: 30\<newline>'' @
     ''- Gender: female\<newline>'' @
     ''- Duration: 2 days\<newline>\<newline>'' @
     ''Provide your analysis in the specified JSON format.''"
  by code_simp

text \<open>
  The prompt of the headache example contains neither \<open>Gender: Female\<close> nor
  \<open>Duration: 2 Days\<close>: the three substrings \<open>Age: 30\<close>, \<open>Gender: Female\<close> and
  \<open>Duration: 2 Days\<close> are not all in it.
\<close>

theorem headache_prompt_values_not_title_cased:
  "\<not> sublist ''Gender: Female'' (build_prompt headache (Some headache_info))
   \<and> \<not> sublist ''Duration: 2 Days'' (build_prompt headache (Some headache_info))
   \<and> \<not> (sublist ''Age: 30'' (build_prompt headache (Some headache_info))
          \<and> sublist ''Gender: Female'' (build_prompt headache (Some headache_info))
          \<and> sublist ''Duration: 2 Days'' (build_prompt headache (Some headache_info)))"
  by code_simp

text \<open>
  C7 (amended): for the symptom text of the example and the metadata age 30, gender
  "female", duration "2 days", the user prompt contains the substrings \<open>Age: 30\<close>,
  \<open>Gender: female\<close> and \<open>Duration: 2 days\<close>: each key is in title case, each value is
  entered unchanged.
\<close>

theorem headache_prompt_substrings:
  "sublist ''Age: 30'' (build_prompt headache (Some headache_info))
   \<and> sublist ''Gender: female'' (build_prompt headache (Some headache_info))
   \<and> sublist ''Duration: 2 days'' (build_prompt headache (Some headache_info))"
  by code_simp

section \<open>Decoding the answer\<close>

text \<open>
  When \<open>analyze_symptoms\<close> has issued a request, the symptoms are a string that passed
  both checks, and the request is the one built from it.
\<close>

lemma analyze_symptoms_issues:
  assumes "fst (analyze_symptoms json_loads self symptoms additional_info) = [req]"
  shows "\<exists>s. symptoms = PStr s \<and> s \<noteq> [] \<and> 5 \<le> length (py_strip s)
            \<and> req = \<lparr>request.model = symptom_analyzer.model self,
                       messages =
                         [\<lparr>role = ''system'', content = system_prompt self\<rparr>,
                          \<lparr>role = ''user'', content = build_prompt s additional_info\<rparr>],
                       temperature = 7 / 10,
                       max_tokens = 2000,
                       stream = False,
                       response_format = ''json_object''\<rparr>"
  using assms
  by (cases symptoms) (auto simp: analyze_symptoms_def Let_def split: if_splits)

text \<open>
  When the first choice of the answer to that request holds a text that decodes to a
  \<open>dict\<close>, the result is built from the \<open>dict\<close> with the fallbacks of the source.
\<close>

lemma analyze_symptoms_decoded:
  assumes "fst (analyze_symptoms json_loads self symptoms additional_info) = [req]"
    and "create (client self) req = Inr (Some response_text # others)"
    and "json_loads response_text = Inr (PDict result_data)"
  shows "snd (analyze_symptoms json_loads self symptoms additional_info) =
           Inr \<lparr>condition = dict_get result_data ''condition'' (PStr ''Unknown''),
                severity = dict_get result_data ''severity'' (PStr ''moderate''),
                confidence = dict_get result_data ''confidence'' (PStr ''medium''),
                analysis = dict_get result_data ''analysis'' (PStr []),
                remedies = dict_get result_data ''remedies'' (PList []),
                when_to_see_doctor = dict_get result_data ''when_to_see_doctor'' (PList []),
                precautions = dict_get result_data ''precautions'' (PList []),
                disclaimer =
                  dict_get result_data ''disclaimer''
                    (PStr ''This is not a medical diagnosis. Consult a healthcare professional.'')\<rparr>"
proof -
  from analyze_symptoms_issues [OF assms(1)] obtain s where
    s: "symptoms = PStr s" "s \<noteq> []" "5 \<le> length (py_strip s)"
    and req: "req = \<lparr>request.model = symptom_analyzer.model self,
                       messages =
                         [\<lparr>role = ''system'', content = system_prompt self\<rparr>,
                          \<lparr>role = ''user'', content = build_prompt s additional_info\<rparr>],
                       temperature = 7 / 10,
                       max_tokens = 2000,
                       stream = False,
                       response_format = ''json_object''\<rparr>"
    by blast
  show ?thesis
    using s assms(2,3) unfolding req
    by (simp add: analyze_symptoms_def Let_def)
qed



text \<open>
  The example analyzer on the headache text: the text passes the checks, and the request
  is issued.
\<close>

lemma headache_long_enough: "5 \<le> length (py_strip headache)"
  by code_simp

lemma example_issues:
  "fst (analyze_symptoms jl (example_analyzer text items) (PStr headache) info) =
     [\<lparr>request.model = ''gpt-4o'',
       messages =
         [\<lparr>role = ''system'', content = servvia_system_prompt\<rparr>,
          \<lparr>role = ''user'', content = build_prompt headache info\<rparr>],
       temperature = 7 / 10,
       max_tokens = 2000,
       stream = False,
       response_format = ''json_object''\<rparr>]"
proof -
  have "headache \<noteq> []" by (simp add: headache_def)
  then show ?thesis
    using headache_long_enough
    by (simp add: analyze_symptoms_def Let_def example_analyzer_def)
qed

text \<open>
  C3: when the answer decodes to a JSON object without the keys \<open>severity\<close>,
  \<open>confidence\<close> and \<open>disclaimer\<close>, \<open>analyze_symptoms\<close> returns a result with
  severity "moderate", confidence "medium" and the fixed disclaimer sentence. Each of
  the other five fields holds the value of its key when the object has the key, and
  otherwise "Unknown" (condition), the empty string (analysis) or the empty list
  (remedies, when_to_see_doctor, precautions): the result has a value in all eight
  fields.
\<close>

theorem analyze_defaults_missing_keys:
  assumes "fst (analyze_symptoms json_loads self symptoms additional_info) = [req]"
    and "create (client self) req = Inr (Some response_text # others)"
    and "json_loads response_text = Inr (PDict result_data)"
    and "map_of result_data ''severity'' = None"
    and "map_of result_data ''confidence'' = None"
    and "map_of result_data ''disclaimer'' = None"
  shows "\<exists>r. snd (analyze_symptoms json_loads self symptoms additional_info) = Inr r
           \<and> severity r = PStr ''moderate''
           \<and> confidence r = PStr ''medium''
           \<and> disclaimer r =
               PStr ''This is not a medical diagnosis. Consult a healthcare professional.''
           \<and> condition r =
               (case map_of result_data ''condition'' of Some v \<Rightarrow> v | None \<Rightarrow> PStr ''Unknown'')
           \<and> analysis r =
               (case map_of result_data ''analysis'' of Some v \<Rightarrow> v | None \<Rightarrow> PStr [])
           \<and> remedies r =
               (case map_of result_data ''remedies'' of Some v \<Rightarrow> v | None \<Rightarrow> PList [])
           \<and> when_to_see_doctor r =
               (case map_of result_data ''when_to_see_doctor'' of
                  Some v \<Rightarrow> v | None \<Rightarrow> PList [])
           \<and> precautions r =
               (case map_of result_data ''precautions'' of Some v \<Rightarrow> v | None \<Rightarrow> PList [])"
  using analyze_symptoms_decoded [OF assms(1,2,3)] assms(4,5,6)
  by (simp add: dict_get_def split: option.split)

text \<open>
  What the example client and the example decoder answer.
\<close>

lemma replying_create:
  "create (client (example_analyzer text items)) req = Inr (Some text # [])"
  by (simp add: example_analyzer_def replying_client_def)

lemma example_loads_partial: "example_loads partial_text = Inr (PDict partial_dict)"
  by (simp add: example_loads_def partial_text_def complete_text_def)

lemma example_loads_offlist: "example_loads offlist_text = Inr (PDict offlist_dict)"
  by (simp add: example_loads_def partial_text_def complete_text_def offlist_text_def)

lemma example_loads_complete: "example_loads complete_text = Inr (PDict complete_dict)"
  by (simp add: example_loads_def)


text \<open>
  The theorem at the answer that has only \<open>condition\<close> and \<open>remedies\<close>.
\<close>

theorem analyze_defaults_missing_keys_witness:
  "example_loads partial_text = Inr (PDict partial_dict)
   \<and> snd (analyze_symptoms example_loads (example_analyzer partial_text []) (PStr headache) None) =
       Inr \<lparr>condition = PStr ''Migraine'',
            severity = PStr ''moderate'',
            confidence = PStr ''medium'',
            analysis = PStr [],
            remedies = PList [PStr ''Rest''],
            when_to_see_doctor = PList [],
            precautions = PList [],
            disclaimer =
              PStr ''This is not a medical diagnosis. Consult a healthcare professional.''\<rparr>"
proof -
  have "map_of partial_dict ''severity'' = None" "map_of partial_dict ''confidence'' = None"
    "map_of partial_dict ''disclaimer'' = None"
    by (simp_all add: partial_dict_def)
  from analyze_defaults_missing_keys
    [where json_loads = example_loads and response_text = partial_text,
      OF example_issues replying_create example_loads_partial this]
  obtain r where
    "snd (analyze_symptoms example_loads (example_analyzer partial_text []) (PStr headache) None) = Inr r"
    and "severity r = PStr ''moderate''" "confidence r = PStr ''medium''"
    and "disclaimer r = PStr ''This is not a medical diagnosis. Consult a healthcare professional.''"
    and "condition r = PStr ''Migraine''" "analysis r = PStr []"
    and "remedies r = PList [PStr ''Rest'']" "when_to_see_doctor r = PList []"
    and "precautions r = PList []"
    by (auto simp: partial_dict_def)
  then show ?thesis
    using example_loads_partial by (cases r) simp
qed

text \<open>
  The answer \<open>{"severity": "critical", "confidence": "certain"}\<close> is a JSON object
  whose severity and confidence are outside the vocabularies. The result does not have
  severity "moderate" and confidence "medium": it has the two values of the answer.
\<close>

theorem offlist_severity_is_kept:
  "snd (analyze_symptoms example_loads (example_analyzer offlist_text []) (PStr headache) None) =
     Inr \<lparr>condition = PStr ''Unknown'',
          severity = PStr ''critical'',
          confidence = PStr ''certain'',
          analysis = PStr [],
          remedies = PList [],
          when_to_see_doctor = PList [],
          precautions = PList [],
          disclaimer =
            PStr ''This is not a medical diagnosis. Consult a healthcare professional.''\<rparr>"
  using analyze_symptoms_decoded
    [where json_loads = example_loads and response_text = offlist_text,
      OF example_issues replying_create example_loads_offlist]
  by (simp add: dict_get_def offlist_dict_def)

text \<open>
  C4 (amended): when the answer decodes to a JSON object, the severity of the result is
  the value under \<open>severity\<close> whenever the object has that key, whatever the value is,
  and "moderate" only when the key is missing; in the same way the confidence is the
  value under \<open>confidence\<close>, and "medium" only when the key is missing.
\<close>

theorem analyze_keeps_present_severity:
  assumes "fst (analyze_symptoms json_loads self symptoms additional_info) = [req]"
    and "create (client self) req = Inr (Some response_text # others)"
    and "json_loads response_text = Inr (PDict result_data)"
  shows "\<exists>r. snd (analyze_symptoms json_loads self symptoms additional_info) = Inr r
           \<and> severity r =
               (case map_of result_data ''severity'' of Some v \<Rightarrow> v | None \<Rightarrow> PStr ''moderate'')
           \<and> confidence r =
               (case map_of result_data ''confidence'' of Some v \<Rightarrow> v | None \<Rightarrow> PStr ''medium'')"
  using analyze_symptoms_decoded [OF assms]
  by (simp add: dict_get_def split: option.split)

text \<open>
  The theorem at the answer with severity "critical" and confidence "certain".
\<close>

theorem analyze_keeps_present_severity_witness:
  "map_of offlist_dict ''severity'' = Some (PStr ''critical'')
   \<and> map_of offlist_dict ''confidence'' = Some (PStr ''certain'')
   \<and> (\<exists>r. snd (analyze_symptoms example_loads (example_analyzer offlist_text [])
                  (PStr headache) (Some headache_info)) = Inr r
          \<and> severity r = PStr ''critical'' \<and> confidence r = PStr ''certain'')"
  using analyze_keeps_present_severity
    [where json_loads = example_loads and response_text = offlist_text,
      OF example_issues replying_create example_loads_offlist]
  by (simp add: offlist_dict_def)

text \<open>
  C5: when the answer decodes to a JSON object that has all eight keys of the schema,
  the result of \<open>analyze_symptoms\<close> holds, field for field, the values of these keys.
  The object may have any further keys: they do not enter the result.
\<close>

theorem analyze_copies_complete_answer:
  assumes "fst (analyze_symptoms json_loads self symptoms additional_info) = [req]"
    and "create (client self) req = Inr (Some response_text # others)"
    and "json_loads response_text = Inr (PDict result_data)"
    and "map_of result_data ''condition'' = Some c"
    and "map_of result_data ''severity'' = Some sv"
    and "map_of result_data ''confidence'' = Some cf"
    and "map_of result_data ''analysis'' = Some a"
    and "map_of result_data ''remedies'' = Some rm"
    and "map_of result_data ''when_to_see_doctor'' = Some w"
    and "map_of result_data ''precautions'' = Some p"
    and "map_of result_data ''disclaimer'' = Some dc"
  shows "snd (analyze_symptoms json_loads self symptoms additional_info) =
           Inr \<lparr>condition = c, severity = sv, confidence = cf, analysis = a, remedies = rm,
                when_to_see_doctor = w, precautions = p, disclaimer = dc\<rparr>"
  using analyze_symptoms_decoded [OF assms(1,2,3)] assms(4-)
  by (simp add: dict_get_def)

text \<open>
  The theorem at the complete answer, which has the further key \<open>source\<close>.
\<close>

theorem analyze_copies_complete_answer_witness:
  "map_of complete_dict ''source'' = Some (PStr ''model'')
   \<and> snd (analyze_symptoms example_loads (example_analyzer complete_text []) (PStr headache)
           (Some headache_info)) =
       Inr \<lparr>condition = PStr ''Migraine'',
            severity = PStr ''mild'',
            confidence = PStr ''high'',
            analysis = PStr ''May indicate migraine.'',
            remedies = PList [PStr ''Rest''],
            when_to_see_doctor = PList [PStr ''Vision loss''],
            precautions = PList [PStr ''Avoid glare''],
            disclaimer = PStr ''See a doctor.''\<rparr>"
proof -
  have keys:
    "map_of complete_dict ''condition'' = Some (PStr ''Migraine'')"
    "map_of complete_dict ''severity'' = Some (PStr ''mild'')"
    "map_of complete_dict ''confidence'' = Some (PStr ''high'')"
    "map_of complete_dict ''analysis'' = Some (PStr ''May indicate migraine.'')"
    "map_of complete_dict ''remedies'' = Some (PList [PStr ''Rest''])"
    "map_of complete_dict ''when_to_see_doctor'' = Some (PList [PStr ''Vision loss''])"
    "map_of complete_dict ''precautions'' = Some (PList [PStr ''Avoid glare''])"
    "map_of complete_dict ''disclaimer'' = Some (PStr ''See a doctor.'')"
    by (simp_all add: complete_dict_def)
  have extra: "map_of complete_dict ''source'' = Some (PStr ''model'')"
    by (simp add: complete_dict_def)
  show ?thesis
    using analyze_copies_complete_answer
      [where json_loads = example_loads and response_text = complete_text,
        OF example_issues replying_create example_loads_complete keys] extra
    by simp
qed

section \<open>Streaming\<close>

text \<open>
  Over a stream in which every item is a chunk with a first choice, the loop yields the
  non-empty fragments in order and collects the concatenation of all fragments.
\<close>

lemma consume_delivered:
  assumes "\<forall>it \<in> set items. delivered it"
  shows "consume items collected =
           (filter (\<lambda>c. c \<noteq> []) (map fragment items),
            Inr (collected @ concat (map fragment items)))"
  using assms
proof (induction items collected rule: consume.induct)
  case (1 collected_content)
  then show ?case by simp
next
  case (2 e rest collected_content)
  then show ?case by simp
next
  case (3 rest collected_content)
  then show ?case by simp
next
  case (4 uu rest collected_content)
  then show ?case by simp
next
  case (5 c uv rest collected_content)
  then show ?case by simp
qed


text \<open>
  \<open>analyze_with_streaming\<close> issues its request whatever the symptoms are.
\<close>

lemma streaming_issues:
  "fst (analyze_with_streaming json_loads self symptoms additional_info) =
     [\<lparr>request.model = symptom_analyzer.model self,
       messages =
         [\<lparr>role = ''system'', content = system_prompt self\<rparr>,
          \<lparr>role = ''user'', content = build_prompt symptoms additional_info\<rparr>],
       temperature = 7 / 10,
       max_tokens = 2000,
       stream = True,
       response_format = ''json_object''\<rparr>]"
  by (simp add: analyze_with_streaming_def Let_def split: sum.split prod.split)

text \<open>
  The whole run over such a stream.
\<close>

lemma streaming_delivered:
  assumes "fst (analyze_with_streaming json_loads self symptoms additional_info) = [req]"
    and "create_stream (client self) req = Inr items"
    and "\<forall>it \<in> set items. delivered it"
  shows "analyze_with_streaming json_loads self symptoms additional_info =
           ([req], filter (\<lambda>c. c \<noteq> []) (map fragment items),
            (case json_loads (concat (map fragment items)) of
               Inl err \<Rightarrow> Inl (Exn Exception (''Failed to analyze symptoms: '' @ err))
             | Inr (PDict result_data) \<Rightarrow>
                 Inr \<lparr>condition = dict_get result_data ''condition'' (PStr ''Unknown''),
                      severity = dict_get result_data ''severity'' (PStr ''moderate''),
                      confidence = dict_get result_data ''confidence'' (PStr ''medium''),
                      analysis = dict_get result_data ''analysis'' (PStr []),
                      remedies = dict_get result_data ''remedies'' (PList []),
                      when_to_see_doctor = dict_get result_data ''when_to_see_doctor'' (PList []),
                      precautions = dict_get result_data ''precautions'' (PList []),
                      disclaimer =
                        dict_get result_data ''disclaimer''
                          (PStr ''This is not a medical diagnosis. Consult a healthcare professional.'')\<rparr>
             | Inr v \<Rightarrow>
                 Inl (Exn Exception (''Failed to analyze symptoms: '' @ no_attribute_get v))))"
proof -
  have req: "req = \<lparr>request.model = symptom_analyzer.model self,
       messages =
         [\<lparr>role = ''system'', content = system_prompt self\<rparr>,
          \<lparr>role = ''user'', content = build_prompt symptoms additional_info\<rparr>],
       temperature = 7 / 10,
       max_tokens = 2000,
       stream = True,
       response_format = ''json_object''\<rparr>"
    using assms(1) by (simp add: streaming_issues)
  show ?thesis
    using assms(2) consume_delivered [OF assms(3), of "[]"] unfolding req
    by (simp add: analyze_with_streaming_def Let_def streaming_except_def
        split: sum.split pyval.split)
qed


text \<open>
  What the example client streams.
\<close>

lemma replying_create_stream:
  "create_stream (client (example_analyzer text items)) req = Inr items"
  by (simp add: example_analyzer_def replying_client_def)


lemma partial_items_text: "concat (map fragment partial_items) = partial_text"
  by (simp add: partial_items_def partial_text_def)



text \<open>
  The partial answer, streamed.
\<close>

lemma example_loads_partial_items:
  "example_loads (concat (map fragment partial_items)) = Inr (PDict partial_dict)"
  by (simp add: partial_items_text example_loads_partial)


text \<open>
  C2: \<open>analyze_with_streaming\<close> is to reject the symptoms that \<open>analyze_symptoms\<close>
  rejects, before any request. It does not: run on the empty string, it issues the
  streaming request with a prompt that holds no symptoms, yields the fragments of the
  answer and returns a result, where \<open>analyze_symptoms\<close> raises \<open>ValueError\<close>
  ("Symptoms must be a non-empty string") and issues nothing.
\<close>

theorem streaming_accepts_empty_symptoms:
  \<open>analyze_with_streaming example_loads (example_analyzer partial_text partial_items) [] None =
     ([\<lparr>request.model = ''gpt-4o'',
        messages =
          [\<lparr>role = ''system'', content = servvia_system_prompt\<rparr>,
           \<lparr>role = ''user'',
            content =
              ''Please analyze these symptoms:\<newline>\<newline>'' @
              ''\<newline>\<newline>Provide your analysis in the specified JSON format.''\<rparr>],
        temperature = 7 / 10,
        max_tokens = 2000,
        stream = True,
        response_format = ''json_object''\<rparr>],
      [''{"condition": "Migraine", '', ''"remedies": ["Rest"]}''],
      Inr \<lparr>condition = PStr ''Migraine'',
           severity = PStr ''moderate'',
           confidence = PStr ''medium'',
           analysis = PStr [],
           remedies = PList [PStr ''Rest''],
           when_to_see_doctor = PList [],
           precautions = PList [],
           disclaimer =
             PStr ''This is not a medical diagnosis. Consult a healthcare professional.''\<rparr>)\<close>
proof -
  let ?a = "example_analyzer partial_text partial_items"
  obtain sreq where sreq: "fst (analyze_with_streaming example_loads ?a [] None) = [sreq]"
    using streaming_issues by blast
  have del: "\<forall>it \<in> set partial_items. delivered it"
    by (simp add: partial_items_def)
  have "analyze_with_streaming example_loads ?a [] None =
      ([sreq], filter (\<lambda>c. c \<noteq> []) (map fragment partial_items),
       Inr \<lparr>condition = dict_get partial_dict ''condition'' (PStr ''Unknown''),
            severity = dict_get partial_dict ''severity'' (PStr ''moderate''),
            confidence = dict_get partial_dict ''confidence'' (PStr ''medium''),
            analysis = dict_get partial_dict ''analysis'' (PStr []),
            remedies = dict_get partial_dict ''remedies'' (PList []),
            when_to_see_doctor = dict_get partial_dict ''when_to_see_doctor'' (PList []),
            precautions = dict_get partial_dict ''precautions'' (PList []),
            disclaimer =
              dict_get partial_dict ''disclaimer''
                (PStr ''This is not a medical diagnosis. Consult a healthcare professional.'')\<rparr>)"
    using streaming_delivered [OF sreq replying_create_stream del]
    by (simp add: example_loads_partial_items)
  moreover have "sreq = \<lparr>request.model = ''gpt-4o'',
        messages =
          [\<lparr>role = ''system'', content = servvia_system_prompt\<rparr>,
           \<lparr>role = ''user'', content = build_prompt [] None\<rparr>],
        temperature = 7 / 10,
        max_tokens = 2000,
        stream = True,
        response_format = ''json_object''\<rparr>"
    using sreq by (simp add: streaming_issues example_analyzer_def)
  ultimately show ?thesis
    by (simp add: build_prompt_def partial_items_def partial_dict_def dict_get_def)
qed

section \<open>The facade\<close>

text \<open>
  Every exception class of the model derives from \<open>Exception\<close>.
\<close>

lemma issubclass_Exception: "issubclass c Exception"
  by (cases c) simp_all



text \<open>
  C10: \<open>ServviaAPI.analyze\<close> leaves out of \<open>additional_info\<close> every argument that is
  falsy: the age when it is absent or 0, and each of gender, duration, severity_level
  and medical_history when it is absent or the empty string. When all five are falsy,
  the analyzer is called with \<open>None\<close> for the metadata, and the user prompt of the
  request is the opening line, the symptoms and the closing instruction, with no
  "Additional Information:" part between them.
\<close>

theorem api_analyze_drops_falsy_metadata:
  "((age = None \<or> age = Some 0)
      \<longrightarrow> ''age'' \<notin> fst ` set (build_additional_info age gender duration severity_level
                                  medical_history))
   \<and> ((gender = None \<or> gender = Some [])
      \<longrightarrow> ''gender'' \<notin> fst ` set (build_additional_info age gender duration severity_level
                                     medical_history))
   \<and> ((duration = None \<or> duration = Some [])
      \<longrightarrow> ''duration'' \<notin> fst ` set (build_additional_info age gender duration severity_level
                                       medical_history))
   \<and> ((severity_level = None \<or> severity_level = Some [])
      \<longrightarrow> ''severity_level'' \<notin> fst ` set (build_additional_info age gender duration
                                             severity_level medical_history))
   \<and> ((medical_history = None \<or> medical_history = Some [])
      \<longrightarrow> ''medical_history'' \<notin> fst ` set (build_additional_info age gender duration
                                              severity_level medical_history))
   \<and> ((age = None \<or> age = Some 0) \<and> (gender = None \<or> gender = Some [])
        \<and> (duration = None \<or> duration = Some [])
        \<and> (severity_level = None \<or> severity_level = Some [])
        \<and> (medical_history = None \<or> medical_history = Some [])
      \<longrightarrow> fst (api_analyze json_loads self symptoms age gender duration severity_level
                 medical_history)
            = fst (analyze_symptoms json_loads (analyzer self) symptoms None)
          \<and> (\<forall>s req. symptoms = PStr s
                \<and> fst (api_analyze json_loads self symptoms age gender duration severity_level
                         medical_history) = [req]
              \<longrightarrow> map content (messages req) =
                    [system_prompt (analyzer self),
                     ''Please analyze these symptoms:\<newline>\<newline>'' @ s @
                     ''\<newline>\<newline>Provide your analysis in the specified JSON format.'']))"
proof -
  have fst_api: "fst (api_analyze json_loads self symptoms age gender duration severity_level
        medical_history)
      = fst (analyze_symptoms json_loads (analyzer self) symptoms
          (if build_additional_info age gender duration severity_level medical_history \<noteq> []
           then Some (build_additional_info age gender duration severity_level medical_history)
           else None))"
    by (simp add: api_analyze_def Let_def split: prod.split sum.split)
  have none: "build_additional_info age gender duration severity_level medical_history = []"
    if "(age = None \<or> age = Some 0) \<and> (gender = None \<or> gender = Some [])
        \<and> (duration = None \<or> duration = Some [])
        \<and> (severity_level = None \<or> severity_level = Some [])
        \<and> (medical_history = None \<or> medical_history = Some [])"
    using that by (auto simp: build_additional_info_def)
  have prompt: "map content (messages req) =
                    [system_prompt (analyzer self),
                     ''Please analyze these symptoms:\<newline>\<newline>'' @ s @
                     ''\<newline>\<newline>Provide your analysis in the specified JSON format.'']"
    if "fst (analyze_symptoms json_loads (analyzer self) (PStr s) None) = [req]" for s req
    using analyze_symptoms_issues [OF that] by (auto simp: build_prompt_def)
  show ?thesis
  proof (intro conjI impI)
    show "''age'' \<notin> fst ` set (build_additional_info age gender duration severity_level
        medical_history)" if "age = None \<or> age = Some 0"
      using that by (auto simp: build_additional_info_def split: option.splits if_splits)
    show "''gender'' \<notin> fst ` set (build_additional_info age gender duration severity_level
        medical_history)" if "gender = None \<or> gender = Some []"
      using that by (auto simp: build_additional_info_def split: option.splits if_splits)
    show "''duration'' \<notin> fst ` set (build_additional_info age gender duration severity_level
        medical_history)" if "duration = None \<or> duration = Some []"
      using that by (auto simp: build_additional_info_def split: option.splits if_splits)
    show "''severity_level'' \<notin> fst ` set (build_additional_info age gender duration
        severity_level medical_history)" if "severity_level = None \<or> severity_level = Some []"
      using that by (auto simp: build_additional_info_def split: option.splits if_splits)
    show "''medical_history'' \<notin> fst ` set (build_additional_info age gender duration
        severity_level medical_history)" if "medical_history = None \<or> medical_history = Some []"
      using that by (auto simp: build_additional_info_def split: option.splits if_splits)
  next
    assume a: "(age = None \<or> age = Some 0) \<and> (gender = None \<or> gender = Some [])
        \<and> (duration = None \<or> duration = Some [])
        \<and> (severity_level = None \<or> severity_level = Some [])
        \<and> (medical_history = None \<or> medical_history = Some [])"
    show "fst (api_analyze json_loads self symptoms age gender duration severity_level
                 medical_history)
            = fst (analyze_symptoms json_loads (analyzer self) symptoms None)"
      by (simp add: fst_api none [OF a])
  next
    assume a: "(age = None \<or> age = Some 0) \<and> (gender = None \<or> gender = Some [])
        \<and> (duration = None \<or> duration = Some [])
        \<and> (severity_level = None \<or> severity_level = Some [])
        \<and> (medical_history = None \<or> medical_history = Some [])"
    show "\<forall>s req. symptoms = PStr s
                \<and> fst (api_analyze json_loads self symptoms age gender duration severity_level
                         medical_history) = [req]
              \<longrightarrow> map content (messages req) =
                    [system_prompt (analyzer self),
                     ''Please analyze these symptoms:\<newline>\<newline>'' @ s @
                     ''\<newline>\<newline>Provide your analysis in the specified JSON format.'']"
      using prompt by (auto simp: fst_api none [OF a])
  qed
qed

text \<open>
  The theorem at age 0 and an empty gender, for the headache text.
\<close>

theorem api_analyze_drops_falsy_metadata_witness:
  "build_additional_info (Some 0) (Some []) None None None = []
   \<and> (\<exists>req. fst (api_analyze example_loads \<lparr>analyzer = example_analyzer complete_text []\<rparr>
                 (PStr headache) (Some 0) (Some []) None None None) = [req]
          \<and> map content (messages req) =
              [servvia_system_prompt,
               ''Please analyze these symptoms:\<newline>\<newline>'' @
               ''persistent headache for 2 days, nauseous, sensitive to light'' @
               ''\<newline>\<newline>Provide your analysis in the specified JSON format.''])"
proof -
  let ?api = "\<lparr>analyzer = example_analyzer complete_text []\<rparr>"
  note drops = api_analyze_drops_falsy_metadata
      [where age = "Some 0" and gender = "Some []" and duration = None
        and severity_level = None and medical_history = None
        and json_loads = example_loads and self = ?api and symptoms = "PStr headache"]
  obtain req where req:
    "fst (analyze_symptoms example_loads (analyzer ?api) (PStr headache) None) = [req]"
    using example_issues by simp
  from drops have same: "fst (api_analyze example_loads ?api (PStr headache) (Some 0) (Some [])
      None None None) = fst (analyze_symptoms example_loads (analyzer ?api) (PStr headache) None)"
    by simp
  with req have issued: "fst (api_analyze example_loads ?api (PStr headache) (Some 0) (Some [])
      None None None) = [req]"
    by simp
  from drops issued have "map content (messages req) =
      [system_prompt (analyzer ?api),
       ''Please analyze these symptoms:\<newline>\<newline>'' @ headache @
       ''\<newline>\<newline>Provide your analysis in the specified JSON format.'']"
    by simp
  then have "map content (messages req) =
      [servvia_system_prompt,
       ''Please analyze these symptoms:\<newline>\<newline>'' @
       ''persistent headache for 2 days, nauseous, sensitive to light'' @
       ''\<newline>\<newline>Provide your analysis in the specified JSON format.'']"
    by (simp add: example_analyzer_def headache_def)
  with issued show ?thesis
    by (simp add: build_additional_info_def)
qed

end
